theory Spec2Isabelle
  imports Complex_Main "HOL-Library.Product_Lexorder" "HOL-Library.Multiset"
begin

section \<open>JavaScript values\<close>

text \<open>
  The request bodies are parsed JSON, so the handlers of \<^verbatim>\<open>backend/index.js\<close> see
  JavaScript values. A number is a double: the model keeps the three non-finite values
  apart and represents a finite one by the rational it denotes (\<^verbatim>\<open>JSON.parse\<close> maps
  \<^verbatim>\<open>1e999\<close> to \<^verbatim>\<open>Infinity\<close>, so the non-finite values are reachable).
\<close>

datatype jsnum = NaN | PosInf | NegInf | Fin rat

datatype jsval =
    Undefined
  | Null
  | Bool bool
  | Num jsnum
  | Str string
  | Arr "jsval list"
  | Obj "(string \<times> jsval) list"

text \<open>\<^verbatim>\<open>!v\<close> is \<open>\<not> truthy v\<close>.\<close>

fun truthy :: "jsval \<Rightarrow> bool" where
  "truthy Undefined = False"
| "truthy Null = False"
| "truthy (Bool b) = b"
| "truthy (Num n) = (n \<noteq> NaN \<and> n \<noteq> Fin 0)"
| "truthy (Str s) = (s \<noteq> [])"
| "truthy (Arr xs) = True"
| "truthy (Obj kvs) = True"

text \<open>Property access \<^verbatim>\<open>obj.k\<close>: a missing property reads as \<^verbatim>\<open>undefined\<close>.\<close>

definition field :: "(string \<times> jsval) list \<Rightarrow> string \<Rightarrow> jsval" where
  "field obj k = (case map_of obj k of None \<Rightarrow> Undefined | Some v \<Rightarrow> v)"

text \<open>\<^verbatim>\<open>typeof amount !== 'number' || isNaN(amount)\<close>\<close>

definition not_a_number :: "jsval \<Rightarrow> bool" where
  "not_a_number v = (case v of Num n \<Rightarrow> n = NaN | _ \<Rightarrow> True)"

subsection \<open>parseInt\<close>

text \<open>
  \<^verbatim>\<open>parseInt(string)\<close> without a radix, after ECMAScript: leading white space is skipped,
  a sign is read, a \<^verbatim>\<open>0x\<close> prefix selects radix 16, and the longest run of digits of
  the radix is the value; with no digit the result is \<^verbatim>\<open>NaN\<close>. The value is kept
  exact (a double rounds above \<open>2 ^ 53\<close>, far outside the range of the integer column
  the result is compared with).
\<close>

definition is_space :: "char \<Rightarrow> bool" where
  "is_space c = (c \<in> set [CHR '' '', CHR 0x09, CHR 0x0A, CHR 0x0B, CHR 0x0C, CHR 0x0D])"

definition digit_value :: "char \<Rightarrow> nat" where
  "digit_value c =
     (let n = (of_char c :: nat)
      in if 48 \<le> n \<and> n \<le> 57 then n - 48
         else if 97 \<le> n \<and> n \<le> 122 then n - 87
         else if 65 \<le> n \<and> n \<le> 90 then n - 55
         else 36)"

definition digits_value :: "nat \<Rightarrow> string \<Rightarrow> nat" where
  "digits_value radix ds = foldl (\<lambda>a c. a * radix + digit_value c) 0 ds"

definition parseInt :: "string \<Rightarrow> jsnum" where
  "parseInt s =
     (let s1 = dropWhile is_space s;
          (sign, s2) = (case s1 of
                          [] \<Rightarrow> (1 :: int, s1)
                        | c # cs \<Rightarrow> if c = CHR ''-'' then (- 1, cs)
                                   else if c = CHR ''+'' then (1, cs) else (1, s1));
          (radix, s3) = (case s2 of
                           a # b # rest \<Rightarrow>
                             if a = CHR ''0'' \<and> (b = CHR ''x'' \<or> b = CHR ''X'')
                             then (16 :: nat, rest) else (10, s2)
                         | _ \<Rightarrow> (10, s2));
          ds = takeWhile (\<lambda>c. digit_value c < radix) s3
      in if ds = [] then NaN else Fin (of_int (sign * int (digits_value radix ds))))"

section \<open>Requests, responses and errors\<close>

text \<open>
  \<open>auth_userId\<close> is \<^verbatim>\<open>req.auth?.userId\<close> as the Clerk middleware leaves it
  (\<open>None\<close> when there is no session), \<open>params_id\<close> is \<^verbatim>\<open>req.params.id\<close>, and
  \<open>query\<close> and \<open>body\<close> are the parsed query string and JSON body.
\<close>

record request =
  auth_userId :: "string option"
  params_id :: string
  query :: "(string \<times> jsval) list"
  body :: "(string \<times> jsval) list"

text \<open>A thrown error object: \<^verbatim>\<open>err.code\<close>, \<^verbatim>\<open>err.message\<close>, \<^verbatim>\<open>err.stack\<close>.\<close>

datatype js_error = Js_error (err_code: "string option") (err_message: string) (err_stack: string)

text \<open>An error raised by the database itself carries its SQLSTATE as the code.\<close>

definition pg_error :: "string \<Rightarrow> string \<Rightarrow> js_error" where
  "pg_error sqlstate msg = Js_error (Some sqlstate) msg (''error: '' @ msg)"

section \<open>The tables\<close>

text \<open>
  A row of \<^verbatim>\<open>transactions\<close>, after the \<^verbatim>\<open>CREATE TABLE\<close> of
  \<^verbatim>\<open>initializeDatabase\<close>. Timestamps are counted in microseconds, the resolution of
  the column type.
\<close>

record txn_row =
  txn_id :: int
  txn_user_id :: string
  txn_description :: string
  txn_amount :: int
  txn_category :: string
  txn_date :: int
  txn_created_at :: int

text \<open>
  Modelled from the spec: the table \<^verbatim>\<open>budget_categories\<close>, whose
  \<^verbatim>\<open>CREATE TABLE\<close> is not in the source. The spec gives a budget category an owner,
  a name that is unique per owner and an amount; the queries of the source add the
  columns \<^verbatim>\<open>id\<close> and \<^verbatim>\<open>created_at\<close>.
\<close>

record cat_row =
  cat_id :: int
  cat_user_id :: string
  cat_name :: string
  cat_amount :: rat
  cat_created_at :: int

text \<open>
  The places of the source that talk to the database. No handler has a loop, so each
  place runs at most once in a request. \<open>Rollback_catch\<close> is the
  \<^verbatim>\<open>ROLLBACK\<close> of a \<^verbatim>\<open>catch\<close> block, \<open>Connect\<close> is \<^verbatim>\<open>pool.connect()\<close>.
\<close>

datatype stmt = Connect | Begin | Select | Insert | Update | Delete | Commit | Rollback | Rollback_catch

text \<open>
  The database as other sessions see it: the committed rows, the two sequences behind the
  \<^verbatim>\<open>SERIAL\<close> columns (a sequence is not rolled back), and the statements sent so far.
\<close>

record store =
  transactions :: "txn_row list"
  transactions_id_seq :: int
  budget_categories :: "cat_row list"
  budget_categories_id_seq :: int
  queries :: "stmt list"

text \<open>
  What a request depends on besides the store. \<open>new_Date\<close> is
  \<^verbatim>\<open>new Date(v).getTime()\<close> in milliseconds, \<open>None\<close> for \<^verbatim>\<open>NaN\<close>;
  \<open>prepareValue\<close> is the text the driver sends for a parameter that is not a string;
  \<open>int4_in\<close> and \<open>timestamp_in\<close> are the database's readers of an integer and of a
  timestamp from text; \<open>category_id_in\<close> and \<open>category_amount_in\<close> are the readers of
  the two columns of \<^verbatim>\<open>budget_categories\<close> whose types the source does not give;
  \<open>now\<close> is the database's clock and \<open>faults\<close> says which statement fails for a
  reason outside the request (a lost connection, a timeout), and with which error.
\<close>

record env =
  NODE_ENV :: "string option"
  new_Date :: "jsval \<Rightarrow> int option"
  prepareValue :: "jsval \<Rightarrow> string"
  int4_in :: "string \<Rightarrow> js_error + int"
  timestamp_in :: "string \<Rightarrow> js_error + int"
  category_id_in :: "string \<Rightarrow> js_error + int"
  category_amount_in :: "jsval \<Rightarrow> js_error + rat"
  now :: int
  faults :: "stmt \<Rightarrow> js_error option"

datatype body =
    Json jsval
  | Transaction txn_row
  | Transactions "txn_row list"
  | Category cat_row
  | Categories "cat_row list"

text \<open>
  A handler either sends a response, or its promise rejects with nothing sent (an error
  thrown outside \<^verbatim>\<open>try\<close>, or inside \<^verbatim>\<open>catch\<close>).
\<close>

datatype outcome = Responded nat body | Rejected js_error

section \<open>Statements\<close>

text \<open>
  A database call runs on the store and either throws or returns. A statement is recorded
  in \<open>queries\<close> when it is sent; one that fails changes nothing else.
\<close>

type_synonym 'r io = "store \<Rightarrow> (js_error + 'r) \<times> store"

definition return_io :: "'r \<Rightarrow> 'r io" where
  "return_io x st = (Inr x, st)"

definition throw_io :: "js_error \<Rightarrow> 'r io" where
  "throw_io e st = (Inl e, st)"

definition bind_io :: "'q io \<Rightarrow> ('q \<Rightarrow> 'r io) \<Rightarrow> 'r io" where
  "bind_io m f st = (case m st of (Inl e, st') \<Rightarrow> (Inl e, st') | (Inr x, st') \<Rightarrow> f x st')"

definition send :: "env \<Rightarrow> stmt \<Rightarrow> unit io" where
  "send env s st =
     (let st' = st\<lparr>queries := queries st @ [s]\<rparr>
      in case faults env s of Some e \<Rightarrow> (Inl e, st') | None \<Rightarrow> (Inr (), st'))"

definition lift_io :: "js_error + 'r \<Rightarrow> 'r io" where
  "lift_io x st = (x, st)"

text \<open>How the driver and the database read the parameters.\<close>

definition pg_text :: "env \<Rightarrow> jsval \<Rightarrow> string" where
  "pg_text env v = (case v of Str s \<Rightarrow> s | _ \<Rightarrow> prepareValue env v)"

text \<open>
  A number sent for an \<^verbatim>\<open>INTEGER\<close> column: the driver sends \<^verbatim>\<open>val.toString()\<close>,
  which the database reads as an integer only when it is a decimal numeral in the 32-bit
  range (\<^verbatim>\<open>NaN\<close>, \<^verbatim>\<open>Infinity\<close>, a fraction and an exponent are syntax errors).
\<close>

definition int4_of_num :: "jsnum \<Rightarrow> js_error + int" where
  "int4_of_num n =
     (case n of
        Fin q \<Rightarrow>
          if of_int \<lfloor>q\<rfloor> = q \<and> \<bar>q\<bar> < 10 ^ 21
          then (if - 2147483648 \<le> \<lfloor>q\<rfloor> \<and> \<lfloor>q\<rfloor> \<le> 2147483647 then Inr \<lfloor>q\<rfloor>
                else Inl (pg_error ''22003'' ''value out of range for type integer''))
          else Inl (pg_error ''22P02'' ''invalid input syntax for type integer'')
      | _ \<Rightarrow> Inl (pg_error ''22P02'' ''invalid input syntax for type integer''))"

text \<open>
  Any value sent for an \<^verbatim>\<open>INTEGER\<close> column; \<open>None\<close> is SQL \<^verbatim>\<open>NULL\<close>, which the
  driver sends for \<^verbatim>\<open>null\<close> and \<^verbatim>\<open>undefined\<close>.
\<close>

definition pg_int4 :: "env \<Rightarrow> jsval \<Rightarrow> js_error + int option" where
  "pg_int4 env v =
     (case v of
        Undefined \<Rightarrow> Inr None
      | Null \<Rightarrow> Inr None
      | Num n \<Rightarrow> map_sum (\<lambda>e. e) Some (int4_of_num n)
      | _ \<Rightarrow> map_sum (\<lambda>e. e) Some (int4_in env (pg_text env v)))"

text \<open>A \<^verbatim>\<open>Date\<close> sent for a \<^verbatim>\<open>TIMESTAMP\<close> column (the server runs in UTC).\<close>

definition pg_timestamp :: "int \<Rightarrow> int" where
  "pg_timestamp ms = ms * 1000"

definition minute :: int where
  "minute = 60000000"

text \<open>The columns of \<^verbatim>\<open>UNIQUE(user_id, description, amount, category, date)\<close>.\<close>

definition unique_key :: "txn_row \<Rightarrow> string \<times> string \<times> int \<times> string \<times> int" where
  "unique_key r = (txn_user_id r, txn_description r, txn_amount r, txn_category r, txn_date r)"

text \<open>\<^verbatim>\<open>BEGIN\<close>: the transaction works on its own copy of the rows.\<close>

definition query_begin :: "env \<Rightarrow> txn_row list io" where
  "query_begin env = bind_io (send env Begin) (\<lambda>_ st. (Inr (transactions st), st))"

text \<open>\<^verbatim>\<open>COMMIT\<close> publishes the copy; \<^verbatim>\<open>ROLLBACK\<close> drops it.\<close>

definition query_commit :: "env \<Rightarrow> txn_row list \<Rightarrow> unit io" where
  "query_commit env work = bind_io (send env Commit) (\<lambda>_ st. (Inr (), st\<lparr>transactions := work\<rparr>))"

definition query_rollback :: "env \<Rightarrow> stmt \<Rightarrow> unit io" where
  "query_rollback env place = send env place"

text \<open>
  The duplicate query of \<^verbatim>\<open>POST /transactions\<close>:
  \<^verbatim>\<open>SELECT id FROM transactions WHERE user_id = $1 AND description = $2 AND amount = $3
  AND category = $4 AND date = $5 AND created_at > NOW() - INTERVAL '1 minute'\<close>
\<close>

definition is_duplicate :: "int \<Rightarrow> string \<Rightarrow> string \<Rightarrow> int \<Rightarrow> string \<Rightarrow> int \<Rightarrow> txn_row \<Rightarrow> bool" where
  "is_duplicate t u d a c dt r =
     (txn_user_id r = u \<and> txn_description r = d \<and> txn_amount r = a \<and> txn_category r = c
      \<and> txn_date r = dt \<and> txn_created_at r > t - minute)"

definition select_duplicate ::
  "env \<Rightarrow> txn_row list \<Rightarrow> string \<Rightarrow> jsval \<Rightarrow> jsnum \<Rightarrow> jsval \<Rightarrow> int \<Rightarrow> txn_row list io" where
  "select_duplicate env work userId description amount category transactionDate =
     bind_io (send env Select) (\<lambda>_.
     bind_io (lift_io (int4_of_num amount)) (\<lambda>a.
       return_io (filter (is_duplicate (now env) userId (pg_text env description) a
                            (pg_text env category) (pg_timestamp transactionDate)) work)))"

text \<open>
  \<^verbatim>\<open>INSERT INTO transactions (user_id, description, amount, category, date) VALUES (...)
  RETURNING *\<close>: the sequence gives the id, the clock gives \<^verbatim>\<open>created_at\<close>, and the
  primary key and the \<^verbatim>\<open>UNIQUE\<close> constraint are checked (SQLSTATE 23505).
\<close>

definition insert_transaction ::
  "env \<Rightarrow> txn_row list \<Rightarrow> string \<Rightarrow> jsval \<Rightarrow> jsnum \<Rightarrow> jsval \<Rightarrow> int \<Rightarrow> (txn_row \<times> txn_row list) io" where
  "insert_transaction env work userId description amount category transactionDate =
     bind_io (send env Insert) (\<lambda>_.
     bind_io (lift_io (int4_of_num amount)) (\<lambda>a st.
       let row = \<lparr>txn_id = transactions_id_seq st, txn_user_id = userId,
                  txn_description = pg_text env description, txn_amount = a,
                  txn_category = pg_text env category,
                  txn_date = pg_timestamp transactionDate, txn_created_at = now env\<rparr>;
           st' = st\<lparr>transactions_id_seq := transactions_id_seq st + 1\<rparr>
       in if txn_id row \<in> txn_id ` set work
          then (Inl (pg_error ''23505'' ''duplicate key value violates unique constraint''), st')
          else if unique_key row \<in> unique_key ` set work
          then (Inl (pg_error ''23505'' ''duplicate key value violates unique constraint''), st')
          else (Inr (row, work @ [row]), st')))"

section \<open>The error handler and the authorization gate\<close>

definition error_handler :: "env \<Rightarrow> js_error \<Rightarrow> outcome" where
  "error_handler env err =
     (if err_code err = Some ''23505''
      then Responded 409 (Json (Obj [(''error'', Str ''Conflict''),
                                      (''message'', Str ''This transaction already exists'')]))
      else Responded 500 (Json (Obj
             [(''error'', Str ''Internal Server Error''),
              (''message'', Str (if NODE_ENV env = Some ''production''
                                 then ''An unexpected error occurred'' else err_message err)),
              (''stack'', if NODE_ENV env = Some ''development''
                          then Str (err_stack err) else Undefined)])))"

definition unauthorized :: outcome where
  "unauthorized =
     Responded 401 (Json (Obj [(''error'', Str ''Unauthorized''),
                               (''message'', Str ''Authentication required for this operation'')]))"

text \<open>
  \<^verbatim>\<open>requireAuth\<close>: \<^verbatim>\<open>!req.auth?.userId\<close> holds without a session and for an empty
  identity; otherwise \<^verbatim>\<open>next()\<close> runs the handler, which reads \<^verbatim>\<open>req.auth.userId\<close>.
\<close>

definition requireAuth :: "request \<Rightarrow> (string \<Rightarrow> store \<Rightarrow> outcome \<times> store) \<Rightarrow> store \<Rightarrow> outcome \<times> store" where
  "requireAuth req handler st =
     (case auth_userId req of
        None \<Rightarrow> (unauthorized, st)
      | Some userId \<Rightarrow> if userId = [] then (unauthorized, st) else handler userId st)"

section \<open>Transactions routes\<close>

subsection \<open>POST /transactions\<close>

definition missing_transaction_fields :: outcome where
  "missing_transaction_fields =
     Responded 400 (Json (Obj [(''error'', Str ''Missing required fields''),
        (''required'', Arr [Str ''description'', Str ''amount'', Str ''category'', Str ''date''])]))"

definition invalid_amount :: outcome where
  "invalid_amount =
     Responded 400 (Json (Obj [(''error'', Str ''Invalid amount''),
                               (''message'', Str ''Amount must be a valid number'')]))"

definition invalid_date :: outcome where
  "invalid_date =
     Responded 400 (Json (Obj [(''error'', Str ''Invalid date format''),
                               (''message'', Str ''Please provide a valid date'')]))"

definition duplicate_transaction :: "int \<Rightarrow> outcome" where
  "duplicate_transaction dup =
     Responded 409 (Json (Obj [(''error'', Str ''Duplicate transaction''),
        (''message'', Str ''A similar transaction was submitted in the last minute. Please wait or modify the details.''),
        (''duplicateId'', Num (Fin (of_int dup)))]))"

text \<open>
  The checks at the head of \<^verbatim>\<open>try\<close>: \<open>Inl\<close> is the response of an early
  \<^verbatim>\<open>return\<close>, \<open>Inr\<close> carries the values the queries are sent with.
\<close>

definition validate_transaction :: "env \<Rightarrow> request \<Rightarrow> outcome + (jsval \<times> jsnum \<times> jsval \<times> int)" where
  "validate_transaction env req =
     (let description = field (body req) ''description'';
          amount = field (body req) ''amount'';
          category = field (body req) ''category'';
          date = field (body req) ''date''
      in if \<not> truthy description \<or> amount = Undefined \<or> \<not> truthy category \<or> \<not> truthy date
         then Inl missing_transaction_fields
         else if not_a_number amount then Inl invalid_amount
         else case new_Date env date of
           None \<Rightarrow> Inl invalid_date
         | Some transactionDate \<Rightarrow>
             (case amount of
                Num n \<Rightarrow> Inr (description, n, category, transactionDate)
              | _ \<Rightarrow> Inl invalid_amount))"

text \<open>The body of \<^verbatim>\<open>try\<close>; \<open>Inl\<close> is an error on its way to \<^verbatim>\<open>catch\<close>.\<close>

definition post_transactions_try :: "env \<Rightarrow> string \<Rightarrow> request \<Rightarrow> outcome io" where
  "post_transactions_try env userId req =
     (case validate_transaction env req of
        Inl response \<Rightarrow> return_io response
      | Inr (description, amount, category, transactionDate) \<Rightarrow>
          bind_io (query_begin env) (\<lambda>work.
          bind_io (select_duplicate env work userId description amount category transactionDate)
            (\<lambda>existingTransaction.
          if existingTransaction \<noteq> []
          then bind_io (query_rollback env Rollback) (\<lambda>_.
                 return_io (duplicate_transaction (txn_id (hd existingTransaction))))
          else bind_io (insert_transaction env work userId description amount category
                          transactionDate) (\<lambda>(row, work').
               bind_io (query_commit env work') (\<lambda>_.
                 return_io (Responded 201 (Transaction row)))))))"

text \<open>
  The handler: the connection is taken before \<^verbatim>\<open>try\<close>; \<^verbatim>\<open>catch\<close> sends
  \<^verbatim>\<open>ROLLBACK\<close> and hands the error to the error handler with \<^verbatim>\<open>next(err)\<close>.
\<close>

definition post_transactions :: "env \<Rightarrow> request \<Rightarrow> string \<Rightarrow> store \<Rightarrow> outcome \<times> store" where
  "post_transactions env req userId st =
     (case faults env Connect of
        Some e \<Rightarrow> (Rejected e, st)
      | None \<Rightarrow>
          (case post_transactions_try env userId req st of
             (Inr out, st') \<Rightarrow> (out, st')
           | (Inl err, st') \<Rightarrow>
               (case query_rollback env Rollback_catch st' of
                  (Inl e, st'') \<Rightarrow> (Rejected e, st'')
                | (Inr _, st'') \<Rightarrow> (error_handler env err, st''))))"

subsection \<open>GET /transactions\<close>

text \<open>
  \<^verbatim>\<open>SELECT * FROM transactions WHERE user_id = $1 [AND date BETWEEN $2 AND $3]
  [AND category = $n] ORDER BY date DESC, created_at DESC\<close>. The range is added only
  when both bounds are truthy, the category when it is truthy. Rows that agree on both
  sort columns keep their table order.
\<close>

definition date_range :: "env \<Rightarrow> jsval \<Rightarrow> jsval \<Rightarrow> js_error + (txn_row \<Rightarrow> bool)" where
  "date_range env startDate endDate =
     (if truthy startDate \<and> truthy endDate
      then (case timestamp_in env (pg_text env startDate) of
              Inl e \<Rightarrow> Inl e
            | Inr lo \<Rightarrow>
                (case timestamp_in env (pg_text env endDate) of
                   Inl e \<Rightarrow> Inl e
                 | Inr hi \<Rightarrow> Inr (\<lambda>r. lo \<le> txn_date r \<and> txn_date r \<le> hi)))
      else Inr (\<lambda>r. True))"

definition select_transactions :: "env \<Rightarrow> string \<Rightarrow> jsval \<Rightarrow> jsval \<Rightarrow> jsval \<Rightarrow> txn_row list io" where
  "select_transactions env userId startDate endDate category =
     bind_io (send env Select) (\<lambda>_.
     bind_io (lift_io (date_range env startDate endDate)) (\<lambda>in_range st.
       (Inr (sort_key (\<lambda>r. (- txn_date r, - txn_created_at r))
               (filter (\<lambda>r. txn_user_id r = userId \<and> in_range r
                            \<and> (truthy category \<longrightarrow> txn_category r = pg_text env category))
                  (transactions st))), st)))"

definition get_transactions :: "env \<Rightarrow> request \<Rightarrow> string \<Rightarrow> store \<Rightarrow> outcome \<times> store" where
  "get_transactions env req userId st =
     (let startDate = field (query req) ''startDate'';
          endDate = field (query req) ''endDate'';
          category = field (query req) ''category''
      in case select_transactions env userId startDate endDate category st of
           (Inl err, st') \<Rightarrow> (error_handler env err, st')
         | (Inr rows, st') \<Rightarrow> (Responded 200 (Transactions rows), st'))"

subsection \<open>PUT /transactions/:id\<close>

definition transaction_not_found :: "string \<Rightarrow> outcome" where
  "transaction_not_found verb =
     Responded 404 (Json (Obj [(''error'', Str ''Not found''),
        (''message'', Str (''Transaction not found or not authorized to '' @ verb))]))"

text \<open>\<^verbatim>\<open>SELECT id FROM transactions WHERE id = $1 AND user_id = $2\<close>\<close>

definition select_owned :: "env \<Rightarrow> txn_row list \<Rightarrow> string \<Rightarrow> string \<Rightarrow> txn_row list io" where
  "select_owned env work transactionId userId =
     bind_io (send env Select) (\<lambda>_.
     bind_io (lift_io (int4_in env transactionId)) (\<lambda>k.
       return_io (filter (\<lambda>r. txn_id r = k \<and> txn_user_id r = userId) work)))"

text \<open>
  \<^verbatim>\<open>UPDATE transactions SET description = $1, amount = $2, category = $3, date = $4
  WHERE id = $5 AND user_id = $6 RETURNING *\<close>. The amount is not checked to be a number
  on this route, so the database reads it; \<^verbatim>\<open>NULL\<close> breaks \<^verbatim>\<open>NOT NULL\<close> (23502),
  and a row that takes the key of another breaks \<^verbatim>\<open>UNIQUE\<close> (23505).
\<close>

definition update_transaction ::
  "env \<Rightarrow> txn_row list \<Rightarrow> jsval \<Rightarrow> jsval \<Rightarrow> jsval \<Rightarrow> int \<Rightarrow> string \<Rightarrow> string
   \<Rightarrow> (txn_row list \<times> txn_row list) io" where
  "update_transaction env work description amount category transactionDate transactionId userId =
     bind_io (send env Update) (\<lambda>_.
     bind_io (lift_io (pg_int4 env amount)) (\<lambda>amount_col.
     bind_io (lift_io (int4_in env transactionId)) (\<lambda>k.
       case amount_col of
         None \<Rightarrow> throw_io (pg_error ''23502'' ''null value in column violates not-null constraint'')
       | Some a \<Rightarrow>
           (let hit = (\<lambda>r. txn_id r = k \<and> txn_user_id r = userId);
                set_row = (\<lambda>r. r\<lparr>txn_description := pg_text env description, txn_amount := a,
                                   txn_category := pg_text env category,
                                   txn_date := pg_timestamp transactionDate\<rparr>);
                updated = map set_row (filter hit work);
                others = filter (\<lambda>r. \<not> hit r) work
            in if \<not> distinct (map unique_key updated)
                  \<or> (\<exists>r \<in> set updated. unique_key r \<in> unique_key ` set others)
               then throw_io (pg_error ''23505'' ''duplicate key value violates unique constraint'')
               else return_io (updated, map (\<lambda>r. if hit r then set_row r else r) work)))))"

text \<open>The checks of this route: the amount only has to be present.\<close>

definition validate_update :: "env \<Rightarrow> request \<Rightarrow> outcome + (jsval \<times> jsval \<times> jsval \<times> int)" where
  "validate_update env req =
     (let description = field (body req) ''description'';
          amount = field (body req) ''amount'';
          category = field (body req) ''category'';
          date = field (body req) ''date''
      in if \<not> truthy description \<or> amount = Undefined \<or> \<not> truthy category \<or> \<not> truthy date
         then Inl missing_transaction_fields
         else case new_Date env date of
           None \<Rightarrow> Inl (Responded 400 (Json (Obj [(''error'', Str ''Invalid date format'')])))
         | Some transactionDate \<Rightarrow> Inr (description, amount, category, transactionDate))"

definition put_transactions_try :: "env \<Rightarrow> string \<Rightarrow> request \<Rightarrow> outcome io" where
  "put_transactions_try env userId req =
     (let transactionId = params_id req
      in case validate_update env req of
           Inl response \<Rightarrow> return_io response
         | Inr (description, amount, category, transactionDate) \<Rightarrow>
             bind_io (query_begin env) (\<lambda>work.
             bind_io (select_owned env work transactionId userId) (\<lambda>existingTransaction.
             if existingTransaction = []
             then bind_io (query_rollback env Rollback) (\<lambda>_.
                    return_io (transaction_not_found ''update''))
             else bind_io (update_transaction env work description amount category
                             transactionDate transactionId userId) (\<lambda>(rows, work').
                  bind_io (query_commit env work') (\<lambda>_.
                    return_io (Responded 200
                      (case rows of [] \<Rightarrow> Json Undefined | r # _ \<Rightarrow> Transaction r)))))))"

definition put_transactions :: "env \<Rightarrow> request \<Rightarrow> string \<Rightarrow> store \<Rightarrow> outcome \<times> store" where
  "put_transactions env req userId st =
     (case faults env Connect of
        Some e \<Rightarrow> (Rejected e, st)
      | None \<Rightarrow>
          (case put_transactions_try env userId req st of
             (Inr out, st') \<Rightarrow> (out, st')
           | (Inl err, st') \<Rightarrow>
               (case query_rollback env Rollback_catch st' of
                  (Inl e, st'') \<Rightarrow> (Rejected e, st'')
                | (Inr _, st'') \<Rightarrow> (error_handler env err, st''))))"

subsection \<open>DELETE /transactions/:id\<close>

text \<open>
  \<^verbatim>\<open>DELETE FROM transactions WHERE id = $1 AND user_id = $2 RETURNING *\<close>, sent
  outside a transaction block, so it commits by itself. The id is the number that
  \<^verbatim>\<open>parseInt\<close> returned.
\<close>

definition delete_transaction :: "env \<Rightarrow> jsnum \<Rightarrow> string \<Rightarrow> txn_row list io" where
  "delete_transaction env transactionId userId =
     bind_io (send env Delete) (\<lambda>_.
     bind_io (lift_io (int4_of_num transactionId)) (\<lambda>k st.
       let hit = (\<lambda>r. txn_id r = k \<and> txn_user_id r = userId)
       in (Inr (filter hit (transactions st)),
           st\<lparr>transactions := filter (\<lambda>r. \<not> hit r) (transactions st)\<rparr>)))"

definition delete_transactions :: "env \<Rightarrow> request \<Rightarrow> string \<Rightarrow> store \<Rightarrow> outcome \<times> store" where
  "delete_transactions env req userId st =
     (case faults env Connect of
        Some e \<Rightarrow> (Rejected e, st)
      | None \<Rightarrow>
          (let transactionId = parseInt (params_id req)
           in case delete_transaction env transactionId userId st of
                (Inl err, st') \<Rightarrow> (error_handler env err, st')
              | (Inr rows, st') \<Rightarrow>
                  if rows = [] then (transaction_not_found ''delete'', st')
                  else (Responded 200 (Json (Obj
                          [(''message'', Str ''Transaction deleted successfully''),
                           (''id'', Num transactionId)])), st')))"

section \<open>Budget categories routes\<close>

definition missing_category_fields :: outcome where
  "missing_category_fields =
     Responded 400 (Json (Obj [(''error'', Str ''Missing required fields''),
                               (''required'', Arr [Str ''name'', Str ''amount''])]))"

definition category_not_found :: "string \<Rightarrow> outcome" where
  "category_not_found verb =
     Responded 404 (Json (Obj [(''error'', Str ''Not found''),
        (''message'', Str (''Category not found or not authorized to '' @ verb))]))"

text \<open>\<^verbatim>\<open>SELECT * FROM budget_categories WHERE user_id = $1 ORDER BY created_at DESC\<close>\<close>

definition get_budget_categories :: "env \<Rightarrow> request \<Rightarrow> string \<Rightarrow> store \<Rightarrow> outcome \<times> store" where
  "get_budget_categories env req userId st =
     (case bind_io (send env Select) (\<lambda>_ st1.
             (Inr (sort_key (\<lambda>r. - cat_created_at r)
                     (filter (\<lambda>r. cat_user_id r = userId) (budget_categories st1))), st1)) st of
        (Inl err, st') \<Rightarrow> (error_handler env err, st')
      | (Inr rows, st') \<Rightarrow> (Responded 200 (Categories rows), st'))"

text \<open>
  \<^verbatim>\<open>INSERT INTO budget_categories (user_id, name, amount) VALUES ($1, $2, $3) RETURNING *\<close>,
  with the spec's invariant that a name is unique per owner (SQLSTATE 23505).
\<close>

definition insert_category :: "env \<Rightarrow> string \<Rightarrow> jsval \<Rightarrow> jsval \<Rightarrow> cat_row io" where
  "insert_category env userId name amount =
     bind_io (send env Insert) (\<lambda>_.
     bind_io (lift_io (category_amount_in env amount)) (\<lambda>a st.
       let row = \<lparr>cat_id = budget_categories_id_seq st, cat_user_id = userId,
                  cat_name = pg_text env name, cat_amount = a, cat_created_at = now env\<rparr>;
           st' = st\<lparr>budget_categories_id_seq := budget_categories_id_seq st + 1\<rparr>
       in if cat_id row \<in> cat_id ` set (budget_categories st)
             \<or> (cat_user_id row, cat_name row)
                  \<in> (\<lambda>r. (cat_user_id r, cat_name r)) ` set (budget_categories st)
          then (Inl (pg_error ''23505'' ''duplicate key value violates unique constraint''), st')
          else (Inr row, st'\<lparr>budget_categories := budget_categories st @ [row]\<rparr>)))"

definition post_budget_categories :: "env \<Rightarrow> request \<Rightarrow> string \<Rightarrow> store \<Rightarrow> outcome \<times> store" where
  "post_budget_categories env req userId st =
     (let name = field (body req) ''name'';
          amount = field (body req) ''amount''
      in if \<not> truthy name \<or> amount = Undefined then (missing_category_fields, st)
         else case insert_category env userId name amount st of
                (Inr row, st') \<Rightarrow> (Responded 201 (Category row), st')
              | (Inl err, st') \<Rightarrow>
                  if err_code err = Some ''23505''
                  then (Responded 409 (Json (Obj
                          [(''error'', Str ''Duplicate category''),
                           (''message'', Str ''A category with this name already exists for the user.'')])),
                        st')
                  else (error_handler env err, st'))"

text \<open>
  \<^verbatim>\<open>UPDATE budget_categories SET name = $1, amount = $2 WHERE id = $3 AND user_id = $4
  RETURNING *\<close>
\<close>

definition update_category :: "env \<Rightarrow> jsval \<Rightarrow> jsval \<Rightarrow> string \<Rightarrow> string \<Rightarrow> cat_row list io" where
  "update_category env name amount categoryId userId =
     bind_io (send env Update) (\<lambda>_.
     bind_io (lift_io (category_amount_in env amount)) (\<lambda>a.
     bind_io (lift_io (category_id_in env categoryId)) (\<lambda>k st.
       let hit = (\<lambda>r. cat_id r = k \<and> cat_user_id r = userId);
           set_row = (\<lambda>r. r\<lparr>cat_name := pg_text env name, cat_amount := a\<rparr>);
           updated = map set_row (filter hit (budget_categories st));
           others = filter (\<lambda>r. \<not> hit r) (budget_categories st);
           key = (\<lambda>r. (cat_user_id r, cat_name r))
       in if \<not> distinct (map key updated) \<or> (\<exists>r \<in> set updated. key r \<in> key ` set others)
          then (Inl (pg_error ''23505'' ''duplicate key value violates unique constraint''), st)
          else (Inr updated,
                st\<lparr>budget_categories :=
                      map (\<lambda>r. if hit r then set_row r else r) (budget_categories st)\<rparr>))))"

definition put_budget_categories :: "env \<Rightarrow> request \<Rightarrow> string \<Rightarrow> store \<Rightarrow> outcome \<times> store" where
  "put_budget_categories env req userId st =
     (let name = field (body req) ''name'';
          amount = field (body req) ''amount'';
          categoryId = params_id req
      in if \<not> truthy name \<or> amount = Undefined then (missing_category_fields, st)
         else case update_category env name amount categoryId userId st of
                (Inl err, st') \<Rightarrow> (error_handler env err, st')
              | (Inr rows, st') \<Rightarrow>
                  (case rows of
                     [] \<Rightarrow> (category_not_found ''update'', st')
                   | r # _ \<Rightarrow> (Responded 200 (Category r), st')))"

text \<open>\<^verbatim>\<open>DELETE FROM budget_categories WHERE id = $1 AND user_id = $2 RETURNING *\<close>\<close>

definition delete_category :: "env \<Rightarrow> string \<Rightarrow> string \<Rightarrow> cat_row list io" where
  "delete_category env categoryId userId =
     bind_io (send env Delete) (\<lambda>_.
     bind_io (lift_io (category_id_in env categoryId)) (\<lambda>k st.
       let hit = (\<lambda>r. cat_id r = k \<and> cat_user_id r = userId)
       in (Inr (filter hit (budget_categories st)),
           st\<lparr>budget_categories := filter (\<lambda>r. \<not> hit r) (budget_categories st)\<rparr>)))"

definition delete_budget_categories :: "env \<Rightarrow> request \<Rightarrow> string \<Rightarrow> store \<Rightarrow> outcome \<times> store" where
  "delete_budget_categories env req userId st =
     (let categoryId = params_id req
      in case delete_category env categoryId userId st of
           (Inl err, st') \<Rightarrow> (error_handler env err, st')
         | (Inr rows, st') \<Rightarrow>
             if rows = [] then (category_not_found ''delete'', st')
             else (Responded 200 (Json (Obj [(''message'', Str ''Category deleted successfully''),
                                             (''id'', Str categoryId)])), st'))"

section \<open>The application\<close>

text \<open>The routes registered with \<^verbatim>\<open>requireAuth\<close>.\<close>

datatype route =
    GET_budget_categories
  | POST_budget_categories
  | PUT_budget_categories
  | DELETE_budget_categories
  | GET_transactions
  | POST_transactions
  | PUT_transactions
  | DELETE_transactions

fun handler :: "route \<Rightarrow> env \<Rightarrow> request \<Rightarrow> string \<Rightarrow> store \<Rightarrow> outcome \<times> store" where
  "handler GET_budget_categories = get_budget_categories"
| "handler POST_budget_categories = post_budget_categories"
| "handler PUT_budget_categories = put_budget_categories"
| "handler DELETE_budget_categories = delete_budget_categories"
| "handler GET_transactions = get_transactions"
| "handler POST_transactions = post_transactions"
| "handler PUT_transactions = put_transactions"
| "handler DELETE_transactions = delete_transactions"

definition app :: "env \<Rightarrow> route \<Rightarrow> request \<Rightarrow> store \<Rightarrow> outcome \<times> store" where
  "app env rt req st = requireAuth req (handler rt env req) st"

section \<open>A deployment and some requests\<close>

text \<open>
  A concrete environment (production, a clock at 2024-01-01T00:10:00Z, no failing
  statement) and the request of the spec's example, on which the theorems below are run.
\<close>

definition deployment :: env where
  "deployment =
     \<lparr>NODE_ENV = Some ''production'',
      new_Date = (\<lambda>v. if v = Str ''2024-01-01'' then Some 1704067200000
                       else if v = Str ''2024-01-02'' then Some 1704153600000 else None),
      prepareValue = (\<lambda>v. ''[object Object]''),
      int4_in = (\<lambda>s. int4_of_num (parseInt s)),
      timestamp_in = (\<lambda>s. if s = ''2024-01-01'' then Inr 1704067200000000
                            else if s = ''2024-01-31'' then Inr 1706659200000000
                            else Inl (pg_error ''22007'' ''invalid input syntax for type timestamp'')),
      category_id_in = (\<lambda>s. int4_of_num (parseInt s)),
      category_amount_in = (\<lambda>v. case v of Num (Fin q) \<Rightarrow> Inr q
                                | _ \<Rightarrow> Inl (pg_error ''22P02'' ''invalid input syntax for type numeric'')),
      now = 1704067800000000,
      faults = (\<lambda>s. None)\<rparr>"

definition empty_store :: store where
  "empty_store =
     \<lparr>transactions = [], transactions_id_seq = 1, budget_categories = [],
      budget_categories_id_seq = 1, queries = []\<rparr>"

definition coffee :: "(string \<times> jsval) list" where
  "coffee = [(''description'', Str ''Coffee''), (''amount'', Num (Fin 450)),
             (''category'', Str ''Food''), (''date'', Str ''2024-01-01'')]"

definition request_of :: "string option \<Rightarrow> string \<Rightarrow> (string \<times> jsval) list \<Rightarrow> request" where
  "request_of user ident obj = \<lparr>auth_userId = user, params_id = ident, query = [], body = obj\<rparr>"

definition coffee_row :: "int \<Rightarrow> string \<Rightarrow> int \<Rightarrow> txn_row" where
  "coffee_row k user created =
     \<lparr>txn_id = k, txn_user_id = user, txn_description = ''Coffee'', txn_amount = 450,
      txn_category = ''Food'', txn_date = 1704067200000000, txn_created_at = created\<rparr>"

definition coffee_next_day :: "(string \<times> jsval) list" where
  "coffee_next_day = [(''description'', Str ''Coffee''), (''amount'', Num (Fin 450)),
                      (''category'', Str ''Food''), (''date'', Str ''2024-01-02'')]"

definition coffee_infinite :: "(string \<times> jsval) list" where
  "coffee_infinite = [(''description'', Str ''Coffee''), (''amount'', Num PosInf),
                      (''category'', Str ''Food''), (''date'', Str ''2024-01-01'')]"

definition coffee_fraction :: "(string \<times> jsval) list" where
  "coffee_fraction = [(''description'', Str ''Coffee''), (''amount'', Num (Fin (9 / 2))),
                      (''category'', Str ''Food''), (''date'', Str ''2024-01-01'')]"





definition store_of :: "txn_row list \<Rightarrow> int \<Rightarrow> store" where
  "store_of rows next_id = empty_store\<lparr>transactions := rows, transactions_id_seq := next_id\<rparr>"

definition coffee_free :: "(string \<times> jsval) list" where
  "coffee_free = [(''description'', Str ''Coffee''), (''amount'', Num (Fin 0)),
                  (''category'', Str ''Food''), (''date'', Str ''2024-01-01'')]"

definition coffee_unnamed :: "(string \<times> jsval) list" where
  "coffee_unnamed = [(''description'', Str ''''), (''amount'', Num (Fin 450)),
                     (''category'', Str ''Food''), (''date'', Str ''2024-01-01'')]"

definition rent_free :: "(string \<times> jsval) list" where
  "rent_free = [(''name'', Str ''Rent''), (''amount'', Num (Fin 0))]"

definition rent_unnamed :: "(string \<times> jsval) list" where
  "rent_unnamed = [(''name'', Str ''''), (''amount'', Num (Fin 0))]"

definition rent_row :: "int \<Rightarrow> string \<Rightarrow> cat_row" where
  "rent_row k user =
     \<lparr>cat_id = k, cat_user_id = user, cat_name = ''Rent'', cat_amount = 1200, cat_created_at = 0\<rparr>"

definition bobs_store :: store where
  "bobs_store = empty_store\<lparr>transactions := [coffee_row 7 ''bob'' 0],
                            budget_categories := [rent_row 3 ''bob'']\<rparr>"

definition january :: request where
  "january = (request_of (Some ''alice'') [] [])
               \<lparr>query := [(''startDate'', Str ''2024-01-01''), (''endDate'', Str ''2024-01-31'')]\<rparr>"

definition ledger :: store where
  "ledger = store_of
     [coffee_row 1 ''alice'' 10,
      (coffee_row 2 ''alice'' 20)\<lparr>txn_date := 1706659200000000\<rparr>,
      (coffee_row 3 ''alice'' 30)\<lparr>txn_date := 1709251200000000\<rparr>,
      (coffee_row 4 ''bob'' 40)\<lparr>txn_amount := 500\<rparr>,
      (coffee_row 5 ''alice'' 50)\<lparr>txn_amount := 900\<rparr>] 6"

section \<open>Auxiliary facts\<close>

lemmas io_defs = bind_io_def send_def return_io_def throw_io_def lift_io_def query_begin_def
  query_commit_def query_rollback_def

subsection \<open>Lists\<close>



subsection \<open>Runs of POST /transactions\<close>




lemma validate_transaction_now [simp]:
  "validate_transaction (env\<lparr>now := t\<rparr>) req = validate_transaction env req"
  by (simp add: validate_transaction_def Let_def cong: if_cong)

lemma pg_text_now [simp]: "pg_text (env\<lparr>now := t\<rparr>) v = pg_text env v"
  by (cases v) (simp_all add: pg_text_def)


subsection \<open>The example requests\<close>

lemma deployment_runs:
  "faults deployment Connect = None" "faults deployment Begin = None"
  "faults deployment Select = None" "faults deployment Rollback = None"
  "faults deployment Insert = None" "faults deployment Commit = None"
  "faults deployment Update = None" "faults deployment Delete = None"
  "faults deployment Rollback_catch = None"
  by (simp_all add: deployment_def)

lemma deployment_reads:
  "pg_text deployment (Str ''Coffee'') = ''Coffee''" "pg_text deployment (Str ''Food'') = ''Food''"
  "pg_timestamp 1704067200000 = 1704067200000000" "now deployment = 1704067800000000"
  by (simp_all add: pg_text_def pg_timestamp_def deployment_def)

lemma coffee_is_valid:
  "validate_transaction deployment (request_of user ident coffee) =
     Inr (Str ''Coffee'', Fin 450, Str ''Food'', 1704067200000)"
  by (simp add: validate_transaction_def deployment_def request_of_def coffee_def field_def
      not_a_number_def)



text \<open>The responses of the route are told apart by their status and body.\<close>

lemma error_handler_status:
  "error_handler env e \<noteq> Responded 201 b" "error_handler env e \<noteq> duplicate_transaction k"
  "error_handler env e \<noteq> missing_transaction_fields" "error_handler env e \<noteq> invalid_amount"
  "error_handler env e \<noteq> invalid_date" "error_handler env e \<noteq> Rejected e'"
  "error_handler env e \<noteq> missing_category_fields"
  by (simp_all add: error_handler_def duplicate_transaction_def missing_transaction_fields_def
      invalid_amount_def invalid_date_def missing_category_fields_def)

lemma duplicate_transaction_inject [simp]:
  "duplicate_transaction k = duplicate_transaction k' \<longleftrightarrow> k = k'"
  by (simp add: duplicate_transaction_def)

lemma duplicate_transaction_status:
  "duplicate_transaction k \<noteq> missing_transaction_fields" "duplicate_transaction k \<noteq> invalid_amount"
  "duplicate_transaction k \<noteq> invalid_date" "duplicate_transaction k \<noteq> Responded 201 b"
  "duplicate_transaction k \<noteq> Rejected e"
  by (simp_all add: duplicate_transaction_def missing_transaction_fields_def
      invalid_amount_def invalid_date_def)

lemmas outcome_distinct =
  error_handler_status error_handler_status [THEN not_sym]
  duplicate_transaction_status duplicate_transaction_status [THEN not_sym]


text \<open>Every way the route can end.\<close>

lemma post_transactions_outcomes:
  "(\<exists>e. fst (post_transactions env req userId st) = Rejected e)
   \<or> validate_transaction env req = Inl (fst (post_transactions env req userId st))
   \<or> (\<exists>k. fst (post_transactions env req userId st) = duplicate_transaction k)
   \<or> (\<exists>row. fst (post_transactions env req userId st) = Responded 201 (Transaction row))
   \<or> (\<exists>e. fst (post_transactions env req userId st) = error_handler env e)"
  by (auto simp: post_transactions_def post_transactions_try_def io_defs select_duplicate_def
      insert_transaction_def Let_def
      split: option.splits sum.splits prod.splits if_splits)


lemma deployment_production: "NODE_ENV deployment = Some ''production''"
  by (simp add: deployment_def)

lemma other_bodies_are_valid:
  "validate_transaction deployment (request_of user ident coffee_next_day) =
     Inr (Str ''Coffee'', Fin 450, Str ''Food'', 1704153600000)"
  "validate_transaction deployment (request_of user ident coffee_infinite) =
     Inr (Str ''Coffee'', PosInf, Str ''Food'', 1704067200000)"
  "validate_transaction deployment (request_of user ident coffee_fraction) =
     Inr (Str ''Coffee'', Fin (9 / 2), Str ''Food'', 1704067200000)"
  by (simp_all add: validate_transaction_def deployment_def request_of_def coffee_next_day_def
      coffee_infinite_def coffee_fraction_def field_def not_a_number_def)


lemmas run_post = post_transactions_def post_transactions_try_def io_defs select_duplicate_def
  insert_transaction_def Let_def deployment_runs deployment_reads deployment_production
  coffee_is_valid other_bodies_are_valid


lemma pg_timestamp_inject [simp]: "pg_timestamp d = pg_timestamp d' \<longleftrightarrow> d = d'"
  by (simp add: pg_timestamp_def)


lemma request_of_simps [simp]:
  "auth_userId (request_of user ident obj) = user" "params_id (request_of user ident obj) = ident"
  "query (request_of user ident obj) = []" "body (request_of user ident obj) = obj"
  by (simp_all add: request_of_def)

text \<open>
  The checks of \<^verbatim>\<open>POST /transactions\<close>: a missing or falsy field, an amount that is
  not a number or is \<^verbatim>\<open>NaN\<close>, and a date that does not parse end the request with
  the matching 400 before any statement is sent.
\<close>

lemma validate_transaction_rejects:
  "\<not> truthy (field (body req) ''description'') \<or> field (body req) ''amount'' = Undefined
     \<or> \<not> truthy (field (body req) ''category'') \<or> \<not> truthy (field (body req) ''date'') \<Longrightarrow>
   validate_transaction env req = Inl missing_transaction_fields"
  "truthy (field (body req) ''description'') \<Longrightarrow> field (body req) ''amount'' \<noteq> Undefined \<Longrightarrow>
   truthy (field (body req) ''category'') \<Longrightarrow> truthy (field (body req) ''date'') \<Longrightarrow>
   not_a_number (field (body req) ''amount'') \<Longrightarrow>
   validate_transaction env req = Inl invalid_amount"
  "truthy (field (body req) ''description'') \<Longrightarrow> field (body req) ''amount'' \<noteq> Undefined \<Longrightarrow>
   truthy (field (body req) ''category'') \<Longrightarrow> truthy (field (body req) ''date'') \<Longrightarrow>
   \<not> not_a_number (field (body req) ''amount'') \<Longrightarrow>
   new_Date env (field (body req) ''date'') = None \<Longrightarrow>
   validate_transaction env req = Inl invalid_date"
  by (auto simp: validate_transaction_def Let_def)

lemma post_transactions_rejected_early:
  assumes "faults env Connect = None" and "validate_transaction env req = Inl out"
  shows "post_transactions env req userId st = (out, st)"
  using assms by (simp add: post_transactions_def post_transactions_try_def io_defs)

lemma validation_outcomes_distinct:
  "invalid_amount \<noteq> missing_transaction_fields" "invalid_date \<noteq> missing_transaction_fields"
  "Responded 201 b \<noteq> missing_transaction_fields" "Rejected e \<noteq> missing_transaction_fields"
  by (simp_all add: invalid_amount_def invalid_date_def missing_transaction_fields_def)

lemma category_outcomes_distinct:
  "Responded 201 b \<noteq> missing_category_fields" "Responded 200 b \<noteq> missing_category_fields"
  "Responded 409 b \<noteq> missing_category_fields" "category_not_found verb \<noteq> missing_category_fields"
  by (simp_all add: missing_category_fields_def category_not_found_def)

subsection \<open>Requests for a row the caller does not own\<close>

lemma key_identifies:
  "distinct (map f xs) \<Longrightarrow> r \<in> set xs \<Longrightarrow> r' \<in> set xs \<Longrightarrow> f r' = f r \<Longrightarrow> r' = r"
  by (meson distinct_map inj_onD)

lemma no_hit:
  assumes "\<forall>x \<in> set xs. \<not> hit x"
  shows "filter hit xs = []" and "filter (\<lambda>x. \<not> hit x) xs = xs"
    and "map (\<lambda>x. if hit x then g x else x) xs = xs"
  using assms by (induction xs) auto

lemma not_owned_transaction:
  assumes "r \<in> set (transactions st)" and "txn_user_id r \<noteq> userId"
    and "distinct (map txn_id (transactions st))"
  shows "\<forall>x \<in> set (transactions st). \<not> (txn_id x = txn_id r \<and> txn_user_id x = userId)"
    and "\<forall>x \<in> set (removeAll r (transactions st)). \<not> (txn_id x = txn_id r \<and> txn_user_id x = userId)"
  using assms key_identifies [of txn_id "transactions st" r] by auto

lemma not_owned_category:
  assumes "r \<in> set (budget_categories st)" and "cat_user_id r \<noteq> userId"
    and "distinct (map cat_id (budget_categories st))"
  shows "\<forall>x \<in> set (budget_categories st). \<not> (cat_id x = cat_id r \<and> cat_user_id x = userId)"
    and "\<forall>x \<in> set (removeAll r (budget_categories st)).
           \<not> (cat_id x = cat_id r \<and> cat_user_id x = userId)"
  using assms key_identifies [of cat_id "budget_categories st" r] by auto

text \<open>The four routes when the caller owns no row with the id of the request.\<close>

lemma delete_transactions_no_hit:
  assumes "faults env Connect = None" and "faults env Delete = None"
    and "int4_of_num (parseInt (params_id req)) = Inr k"
    and "\<forall>x \<in> set (transactions st). \<not> (txn_id x = k \<and> txn_user_id x = userId)"
  shows "delete_transactions env req userId st =
           (transaction_not_found ''delete'', st\<lparr>queries := queries st @ [Delete]\<rparr>)"
  using assms(1-3) no_hit(1,2) [OF assms(4)]
  by (simp add: delete_transactions_def delete_transaction_def io_defs Let_def)

lemma put_transactions_no_hit:
  assumes "faults env Connect = None" and "faults env Begin = None"
    and "faults env Select = None" and "faults env Rollback = None"
    and "validate_update env req = Inr (description, amount, category, d)"
    and "int4_in env (params_id req) = Inr k"
    and "\<forall>x \<in> set (transactions st). \<not> (txn_id x = k \<and> txn_user_id x = userId)"
  shows "put_transactions env req userId st =
           (transaction_not_found ''update'', st\<lparr>queries := queries st @ [Begin, Select, Rollback]\<rparr>)"
  using assms(1-6) no_hit(1) [OF assms(7)]
  by (simp add: put_transactions_def put_transactions_try_def select_owned_def io_defs Let_def)

lemma put_budget_categories_no_hit:
  assumes "faults env Update = None"
    and "truthy (field (body req) ''name'')" and "field (body req) ''amount'' \<noteq> Undefined"
    and "category_amount_in env (field (body req) ''amount'') = Inr a"
    and "category_id_in env (params_id req) = Inr k"
    and "\<forall>x \<in> set (budget_categories st). \<not> (cat_id x = k \<and> cat_user_id x = userId)"
  shows "put_budget_categories env req userId st =
           (category_not_found ''update'', st\<lparr>queries := queries st @ [Update]\<rparr>)"
  using assms no_hit [OF assms(6)]
  by (auto simp: put_budget_categories_def update_category_def io_defs Let_def)

lemma delete_budget_categories_no_hit:
  assumes "faults env Delete = None"
    and "category_id_in env (params_id req) = Inr k"
    and "\<forall>x \<in> set (budget_categories st). \<not> (cat_id x = k \<and> cat_user_id x = userId)"
  shows "delete_budget_categories env req userId st =
           (category_not_found ''delete'', st\<lparr>queries := queries st @ [Delete]\<rparr>)"
  using assms(1,2) no_hit(1,2) [OF assms(3)]
  by (simp add: delete_budget_categories_def delete_category_def io_defs Let_def)

lemma parseInt_examples:
  "parseInt ''7'' = Fin 7" "parseInt ''3'' = Fin 3" "parseInt ''7abc'' = Fin 7"
  "parseInt ''abc'' = NaN"
  by (simp_all add: parseInt_def is_space_def digit_value_def digits_value_def)

lemma int4_of_small: "int4_of_num (Fin 7) = Inr 7" "int4_of_num (Fin 3) = Inr 3"
  by (simp_all add: int4_of_num_def)

lemma deployment_ids:
  "int4_in deployment ''7'' = Inr 7" "category_id_in deployment ''3'' = Inr 3"
  "category_amount_in deployment (Num (Fin 0)) = Inr 0"
  by (simp_all add: deployment_def parseInt_examples int4_of_small)

lemma coffee_update_is_valid:
  "validate_update deployment (request_of user ident coffee) =
     Inr (Str ''Coffee'', Num (Fin 450), Str ''Food'', 1704067200000)"
  by (simp add: validate_update_def deployment_def coffee_def field_def)

lemma january_reads:
  "truthy (field (query january) ''startDate'')" "truthy (field (query january) ''endDate'')"
  "timestamp_in deployment (pg_text deployment (field (query january) ''startDate'')) =
     Inr 1704067200000000"
  "timestamp_in deployment (pg_text deployment (field (query january) ''endDate'')) =
     Inr 1706659200000000"
  "field (query january) ''category'' = Undefined"
  by (simp_all add: january_def field_def pg_text_def deployment_def)

subsection \<open>Reading an id\<close>




section \<open>Properties\<close>

subsection \<open>The duplicate guard\<close>



subsection \<open>Records of another owner\<close>

text \<open>
  C2. A row \<open>r\<close> of \<^verbatim>\<open>transactions\<close>, or a row \<open>c\<close> of \<^verbatim>\<open>budget_categories\<close>,
  belongs to another identity than the caller, and the id of the request reads as the id of
  that row (ids are primary keys). Then delete and update, when the request passes the
  checks of the route and the statements run, answer 404 \<open>Not found\<close> with the fixed
  message of the route, which carries nothing of the row; the rows are as before; and the
  answer is the one the same request gets from the store without that row, where the id
  does not exist at all.
\<close>

theorem other_owners_record_is_not_found:
  "(r \<in> set (transactions st) \<and> txn_user_id r \<noteq> userId
      \<and> distinct (map txn_id (transactions st)) \<longrightarrow>
      (faults env Connect = None \<and> faults env Delete = None
         \<and> int4_of_num (parseInt (params_id req)) = Inr (txn_id r) \<longrightarrow>
         delete_transactions env req userId st =
           (Responded 404 (Json (Obj [(''error'', Str ''Not found''),
              (''message'', Str ''Transaction not found or not authorized to delete'')])),
            st\<lparr>queries := queries st @ [Delete]\<rparr>)
       \<and> fst (delete_transactions env req userId
                (st\<lparr>transactions := removeAll r (transactions st)\<rparr>)) =
           fst (delete_transactions env req userId st))
    \<and> (faults env Connect = None \<and> faults env Begin = None \<and> faults env Select = None
         \<and> faults env Rollback = None
         \<and> (\<exists>description amount category d.
               validate_update env req = Inr (description, amount, category, d))
         \<and> int4_in env (params_id req) = Inr (txn_id r) \<longrightarrow>
         put_transactions env req userId st =
           (Responded 404 (Json (Obj [(''error'', Str ''Not found''),
              (''message'', Str ''Transaction not found or not authorized to update'')])),
            st\<lparr>queries := queries st @ [Begin, Select, Rollback]\<rparr>)
       \<and> fst (put_transactions env req userId
                (st\<lparr>transactions := removeAll r (transactions st)\<rparr>)) =
           fst (put_transactions env req userId st)))
   \<and> (c \<in> set (budget_categories st) \<and> cat_user_id c \<noteq> userId
      \<and> distinct (map cat_id (budget_categories st))
      \<and> category_id_in env (params_id req) = Inr (cat_id c) \<longrightarrow>
      (faults env Delete = None \<longrightarrow>
         delete_budget_categories env req userId st =
           (Responded 404 (Json (Obj [(''error'', Str ''Not found''),
              (''message'', Str ''Category not found or not authorized to delete'')])),
            st\<lparr>queries := queries st @ [Delete]\<rparr>)
       \<and> fst (delete_budget_categories env req userId
                (st\<lparr>budget_categories := removeAll c (budget_categories st)\<rparr>)) =
           fst (delete_budget_categories env req userId st))
    \<and> (faults env Update = None \<and> truthy (field (body req) ''name'')
         \<and> field (body req) ''amount'' \<noteq> Undefined
         \<and> (\<exists>a. category_amount_in env (field (body req) ''amount'') = Inr a) \<longrightarrow>
         put_budget_categories env req userId st =
           (Responded 404 (Json (Obj [(''error'', Str ''Not found''),
              (''message'', Str ''Category not found or not authorized to update'')])),
            st\<lparr>queries := queries st @ [Update]\<rparr>)
       \<and> fst (put_budget_categories env req userId
                (st\<lparr>budget_categories := removeAll c (budget_categories st)\<rparr>)) =
           fst (put_budget_categories env req userId st)))"
proof (intro conjI impI; elim conjE exE)
  assume own: "r \<in> set (transactions st)" "txn_user_id r \<noteq> userId"
    "distinct (map txn_id (transactions st))"
  note miss = not_owned_transaction [OF own]
  have miss': "\<forall>x \<in> set (transactions (st\<lparr>transactions := removeAll r (transactions st)\<rparr>)).
                 \<not> (txn_id x = txn_id r \<and> txn_user_id x = userId)"
    using miss(2) by simp
  {
    assume h: "faults env Connect = None" "faults env Delete = None"
      "int4_of_num (parseInt (params_id req)) = Inr (txn_id r)"
    show "delete_transactions env req userId st =
           (Responded 404 (Json (Obj [(''error'', Str ''Not found''),
              (''message'', Str ''Transaction not found or not authorized to delete'')])),
            st\<lparr>queries := queries st @ [Delete]\<rparr>)"
      using delete_transactions_no_hit [OF h miss(1)] by (simp add: transaction_not_found_def)
    show "fst (delete_transactions env req userId
                (st\<lparr>transactions := removeAll r (transactions st)\<rparr>)) =
           fst (delete_transactions env req userId st)"
      using delete_transactions_no_hit [OF h miss(1)] delete_transactions_no_hit [OF h miss']
      by simp
  }
  {
    fix description amount category d
    assume h: "faults env Connect = None" "faults env Begin = None" "faults env Select = None"
      "faults env Rollback = None"
      "validate_update env req = Inr (description, amount, category, d)"
      "int4_in env (params_id req) = Inr (txn_id r)"
    show "put_transactions env req userId st =
           (Responded 404 (Json (Obj [(''error'', Str ''Not found''),
              (''message'', Str ''Transaction not found or not authorized to update'')])),
            st\<lparr>queries := queries st @ [Begin, Select, Rollback]\<rparr>)"
      using put_transactions_no_hit [OF h miss(1)] by (simp add: transaction_not_found_def)
    show "fst (put_transactions env req userId
                (st\<lparr>transactions := removeAll r (transactions st)\<rparr>)) =
           fst (put_transactions env req userId st)"
      using put_transactions_no_hit [OF h miss(1)] put_transactions_no_hit [OF h miss']
      by simp
  }
next
  assume own: "c \<in> set (budget_categories st)" "cat_user_id c \<noteq> userId"
    "distinct (map cat_id (budget_categories st))"
    and ident: "category_id_in env (params_id req) = Inr (cat_id c)"
  note miss = not_owned_category [OF own]
  have miss': "\<forall>x \<in> set (budget_categories
                   (st\<lparr>budget_categories := removeAll c (budget_categories st)\<rparr>)).
                 \<not> (cat_id x = cat_id c \<and> cat_user_id x = userId)"
    using miss(2) by simp
  {
    assume h: "faults env Delete = None"
    show "delete_budget_categories env req userId st =
           (Responded 404 (Json (Obj [(''error'', Str ''Not found''),
              (''message'', Str ''Category not found or not authorized to delete'')])),
            st\<lparr>queries := queries st @ [Delete]\<rparr>)"
      using delete_budget_categories_no_hit [OF h ident miss(1)]
      by (simp add: category_not_found_def)
    show "fst (delete_budget_categories env req userId
                (st\<lparr>budget_categories := removeAll c (budget_categories st)\<rparr>)) =
           fst (delete_budget_categories env req userId st)"
      using delete_budget_categories_no_hit [OF h ident miss(1)]
        delete_budget_categories_no_hit [OF h ident miss']
      by simp
  }
  {
    fix a
    assume h: "faults env Update = None" "truthy (field (body req) ''name'')"
      "field (body req) ''amount'' \<noteq> Undefined"
      "category_amount_in env (field (body req) ''amount'') = Inr a"
    show "put_budget_categories env req userId st =
           (Responded 404 (Json (Obj [(''error'', Str ''Not found''),
              (''message'', Str ''Category not found or not authorized to update'')])),
            st\<lparr>queries := queries st @ [Update]\<rparr>)"
      using put_budget_categories_no_hit [OF h ident miss(1)]
      by (simp add: category_not_found_def)
    show "fst (put_budget_categories env req userId
                (st\<lparr>budget_categories := removeAll c (budget_categories st)\<rparr>)) =
           fst (put_budget_categories env req userId st)"
      using put_budget_categories_no_hit [OF h ident miss(1)]
        put_budget_categories_no_hit [OF h ident miss']
      by simp
  }
qed

theorem other_owners_record_is_not_found_witness:
  "coffee_row 7 ''bob'' 0 \<in> set (transactions bobs_store)
   \<and> rent_row 3 ''bob'' \<in> set (budget_categories bobs_store)
   \<and> delete_transactions deployment (request_of (Some ''alice'') ''7'' []) ''alice'' bobs_store =
       (Responded 404 (Json (Obj [(''error'', Str ''Not found''),
          (''message'', Str ''Transaction not found or not authorized to delete'')])),
        bobs_store\<lparr>queries := [Delete]\<rparr>)
   \<and> put_transactions deployment (request_of (Some ''alice'') ''7'' coffee) ''alice'' bobs_store =
       (Responded 404 (Json (Obj [(''error'', Str ''Not found''),
          (''message'', Str ''Transaction not found or not authorized to update'')])),
        bobs_store\<lparr>queries := [Begin, Select, Rollback]\<rparr>)
   \<and> delete_budget_categories deployment (request_of (Some ''alice'') ''3'' []) ''alice'' bobs_store =
       (Responded 404 (Json (Obj [(''error'', Str ''Not found''),
          (''message'', Str ''Category not found or not authorized to delete'')])),
        bobs_store\<lparr>queries := [Delete]\<rparr>)
   \<and> put_budget_categories deployment (request_of (Some ''alice'') ''3'' rent_free) ''alice''
        bobs_store =
       (Responded 404 (Json (Obj [(''error'', Str ''Not found''),
          (''message'', Str ''Category not found or not authorized to update'')])),
        bobs_store\<lparr>queries := [Update]\<rparr>)"
proof -
  have own: "coffee_row 7 ''bob'' 0 \<in> set (transactions bobs_store)"
    "txn_user_id (coffee_row 7 ''bob'' 0) \<noteq> ''alice''"
    "distinct (map txn_id (transactions bobs_store))"
    "rent_row 3 ''bob'' \<in> set (budget_categories bobs_store)"
    "cat_user_id (rent_row 3 ''bob'') \<noteq> ''alice''"
    "distinct (map cat_id (budget_categories bobs_store))"
    "txn_id (coffee_row 7 ''bob'' 0) = 7" "cat_id (rent_row 3 ''bob'') = 3"
    "queries bobs_store = []"
    by (simp_all add: bobs_store_def empty_store_def coffee_row_def rent_row_def)
  have rent: "truthy (field rent_free ''name'')" "field rent_free ''amount'' = Num (Fin 0)"
    by (simp_all add: rent_free_def field_def)
  note t = other_owners_record_is_not_found [where env = deployment and userId = "''alice''"
      and st = bobs_store and r = "coffee_row 7 ''bob'' 0" and c = "rent_row 3 ''bob''"]
  have a: "delete_transactions deployment (request_of (Some ''alice'') ''7'' []) ''alice''
             bobs_store =
       (Responded 404 (Json (Obj [(''error'', Str ''Not found''),
          (''message'', Str ''Transaction not found or not authorized to delete'')])),
        bobs_store\<lparr>queries := [Delete]\<rparr>)"
    using t [where req = "request_of (Some ''alice'') ''7'' []"] own deployment_runs
    by (simp add: parseInt_examples int4_of_small)
  have b: "put_transactions deployment (request_of (Some ''alice'') ''7'' coffee) ''alice''
             bobs_store =
       (Responded 404 (Json (Obj [(''error'', Str ''Not found''),
          (''message'', Str ''Transaction not found or not authorized to update'')])),
        bobs_store\<lparr>queries := [Begin, Select, Rollback]\<rparr>)"
    using t [where req = "request_of (Some ''alice'') ''7'' coffee"] own deployment_runs
    by (simp add: coffee_update_is_valid deployment_ids)
  have c: "delete_budget_categories deployment (request_of (Some ''alice'') ''3'' []) ''alice''
             bobs_store =
       (Responded 404 (Json (Obj [(''error'', Str ''Not found''),
          (''message'', Str ''Category not found or not authorized to delete'')])),
        bobs_store\<lparr>queries := [Delete]\<rparr>)"
    using t [where req = "request_of (Some ''alice'') ''3'' []"] own deployment_runs
    by (simp add: deployment_ids)
  have d: "put_budget_categories deployment (request_of (Some ''alice'') ''3'' rent_free) ''alice''
             bobs_store =
       (Responded 404 (Json (Obj [(''error'', Str ''Not found''),
          (''message'', Str ''Category not found or not authorized to update'')])),
        bobs_store\<lparr>queries := [Update]\<rparr>)"
    using t [where req = "request_of (Some ''alice'') ''3'' rent_free"] own deployment_runs rent
    by (simp add: deployment_ids)
  show ?thesis
    using own(1,4) a b c d by simp
qed

subsection \<open>An amount that is not finite\<close>

text \<open>
  C3. The amount \<^verbatim>\<open>Infinity\<close> (the JSON number \<^verbatim>\<open>1e999\<close>) is a number and is not
  \<^verbatim>\<open>NaN\<close>, so it passes the checks: the request is not answered with 400, the
  statements \<^verbatim>\<open>BEGIN\<close> and the duplicate query are sent, the integer column refuses
  the value, and the answer is 500.
\<close>

theorem infinite_amount_reaches_the_database:
  "field coffee_infinite ''amount'' = Num PosInf
   \<and> \<not> not_a_number (field coffee_infinite ''amount'')
   \<and> app deployment POST_transactions (request_of (Some ''alice'') [] coffee_infinite) empty_store =
       (Responded 500 (Json (Obj [(''error'', Str ''Internal Server Error''),
                                  (''message'', Str ''An unexpected error occurred''),
                                  (''stack'', Undefined)])),
        empty_store\<lparr>queries := [Begin, Select, Rollback_catch]\<rparr>)"
proof -
  have "field coffee_infinite ''amount'' = Num PosInf"
    by (simp add: coffee_infinite_def field_def)
  moreover from this have "\<not> not_a_number (field coffee_infinite ''amount'')"
    by (simp add: not_a_number_def)
  moreover have "app deployment POST_transactions (request_of (Some ''alice'') [] coffee_infinite)
                   empty_store =
       (Responded 500 (Json (Obj [(''error'', Str ''Internal Server Error''),
                                  (''message'', Str ''An unexpected error occurred''),
                                  (''stack'', Undefined)])),
        empty_store\<lparr>queries := [Begin, Select, Rollback_catch]\<rparr>)"
    by (simp add: app_def requireAuth_def run_post int4_of_num_def
        empty_store_def error_handler_def pg_error_def)
  ultimately show ?thesis
    by simp
qed

subsection \<open>Errors of the database\<close>



subsection \<open>Creating a transaction\<close>




subsection \<open>Listing transactions\<close>

text \<open>
  C6. A listing whose \<^verbatim>\<open>startDate\<close> and \<^verbatim>\<open>endDate\<close> are both given and are read
  by the database as the timestamps \<open>lo\<close> and \<open>hi\<close> answers 200 with exactly the rows
  of the caller whose date lies between \<open>lo\<close> and \<open>hi\<close>, both included, and whose
  category is the given one when a category is given; each such row appears as often as
  it is stored. The rows come in descending order of date, and in descending order of
  creation time where the dates agree.
\<close>

theorem listing_in_a_date_range:
  assumes "faults env Select = None"
    and "truthy (field (query req) ''startDate'')" and "truthy (field (query req) ''endDate'')"
    and "timestamp_in env (pg_text env (field (query req) ''startDate'')) = Inr lo"
    and "timestamp_in env (pg_text env (field (query req) ''endDate'')) = Inr hi"
  shows "\<exists>rows.
           get_transactions env req userId st =
             (Responded 200 (Transactions rows), st\<lparr>queries := queries st @ [Select]\<rparr>)
         \<and> mset rows =
             mset (filter (\<lambda>r. txn_user_id r = userId \<and> lo \<le> txn_date r \<and> txn_date r \<le> hi
                                \<and> (truthy (field (query req) ''category'') \<longrightarrow>
                                     txn_category r = pg_text env (field (query req) ''category'')))
                     (transactions st))
         \<and> (\<forall>r \<in> set rows. r \<in> set (transactions st) \<and> txn_user_id r = userId
                \<and> lo \<le> txn_date r \<and> txn_date r \<le> hi)
         \<and> sorted_wrt (\<lambda>r r'. txn_date r' < txn_date r
                                \<or> (txn_date r' = txn_date r \<and> txn_created_at r' \<le> txn_created_at r))
             rows"
proof -
  let ?wanted = "\<lambda>r. txn_user_id r = userId \<and> (lo \<le> txn_date r \<and> txn_date r \<le> hi)
                      \<and> (truthy (field (query req) ''category'') \<longrightarrow>
                           txn_category r = pg_text env (field (query req) ''category''))"
  let ?key = "\<lambda>r. (- txn_date r, - txn_created_at r)"
  let ?rows = "sort_key ?key (filter ?wanted (transactions st))"
  have run: "get_transactions env req userId st =
               (Responded 200 (Transactions ?rows), st\<lparr>queries := queries st @ [Select]\<rparr>)"
    using assms
    by (simp add: get_transactions_def select_transactions_def date_range_def io_defs Let_def)
  have "sorted (map ?key ?rows)"
    by (rule sorted_sort_key)
  then have "sorted_wrt (\<lambda>r r'. ?key r \<le> ?key r') ?rows"
    by (simp add: sorted_map)
  then have ordered: "sorted_wrt (\<lambda>r r'. txn_date r' < txn_date r
                         \<or> (txn_date r' = txn_date r \<and> txn_created_at r' \<le> txn_created_at r)) ?rows"
    by (rule sorted_wrt_mono_rel [rotated]) (auto simp: less_eq_prod_def)
  show ?thesis
    using run ordered by (intro exI [of _ ?rows]) auto
qed

theorem listing_in_a_date_range_witness:
  "truthy (field (query january) ''startDate'') \<and> truthy (field (query january) ''endDate'')
   \<and> get_transactions deployment january ''alice'' ledger =
       (Responded 200 (Transactions
          [(coffee_row 2 ''alice'' 20)\<lparr>txn_date := 1706659200000000\<rparr>,
           (coffee_row 5 ''alice'' 50)\<lparr>txn_amount := 900\<rparr>,
           coffee_row 1 ''alice'' 10]),
        ledger\<lparr>queries := [Select]\<rparr>)
   \<and> (\<exists>rows.
         get_transactions deployment january ''alice'' ledger =
           (Responded 200 (Transactions rows), ledger\<lparr>queries := queries ledger @ [Select]\<rparr>)
       \<and> (\<forall>r \<in> set rows. r \<in> set (transactions ledger) \<and> txn_user_id r = ''alice''
              \<and> 1704067200000000 \<le> txn_date r \<and> txn_date r \<le> 1706659200000000)
       \<and> sorted_wrt (\<lambda>r r'. txn_date r' < txn_date r
                              \<or> (txn_date r' = txn_date r \<and> txn_created_at r' \<le> txn_created_at r))
           rows)"
proof -
  have run: "get_transactions deployment january ''alice'' ledger =
       (Responded 200 (Transactions
          [(coffee_row 2 ''alice'' 20)\<lparr>txn_date := 1706659200000000\<rparr>,
           (coffee_row 5 ''alice'' 50)\<lparr>txn_amount := 900\<rparr>,
           coffee_row 1 ''alice'' 10]),
        ledger\<lparr>queries := [Select]\<rparr>)"
    by (simp add: get_transactions_def select_transactions_def date_range_def io_defs Let_def
        january_reads deployment_runs ledger_def store_of_def empty_store_def coffee_row_def
        less_eq_prod_def)
  from listing_in_a_date_range [where st = ledger and userId = "''alice''",
      OF deployment_runs(3) january_reads(1-4)]
  have "\<exists>rows.
         get_transactions deployment january ''alice'' ledger =
           (Responded 200 (Transactions rows), ledger\<lparr>queries := queries ledger @ [Select]\<rparr>)
       \<and> (\<forall>r \<in> set rows. r \<in> set (transactions ledger) \<and> txn_user_id r = ''alice''
              \<and> 1704067200000000 \<le> txn_date r \<and> txn_date r \<le> 1706659200000000)
       \<and> sorted_wrt (\<lambda>r r'. txn_date r' < txn_date r
                              \<or> (txn_date r' = txn_date r \<and> txn_created_at r' \<le> txn_created_at r))
           rows"
    by blast
  with run january_reads(1,2) show ?thesis
    by blast
qed

subsection \<open>A changed tuple\<close>



subsection \<open>The authorization gate\<close>

text \<open>
  C8. A request to a protected route that carries no resolved identity (no session, or an
  empty identity) is answered with 401 and the fixed body \<open>Unauthorized\<close>, whatever the
  route, the request and the environment; the store is returned as it was, so no statement
  was sent and nothing was read or written.
\<close>

theorem unauthenticated_is_rejected:
  assumes "auth_userId req = None \<or> auth_userId req = Some []"
  shows "app env rt req st =
           (Responded 401 (Json (Obj [(''error'', Str ''Unauthorized''),
              (''message'', Str ''Authentication required for this operation'')])), st)"
  using assms by (auto simp: app_def requireAuth_def unauthorized_def)

theorem unauthenticated_is_rejected_witness:
  "auth_userId (request_of None ''7'' coffee) = None
   \<and> app deployment DELETE_transactions (request_of None ''7'' coffee)
         (empty_store\<lparr>transactions := [coffee_row 7 ''alice'' 0]\<rparr>) =
       (Responded 401 (Json (Obj [(''error'', Str ''Unauthorized''),
          (''message'', Str ''Authentication required for this operation'')])),
        empty_store\<lparr>transactions := [coffee_row 7 ''alice'' 0]\<rparr>)"
  using unauthenticated_is_rejected [of "request_of None ''7'' coffee" deployment
      DELETE_transactions "empty_store\<lparr>transactions := [coffee_row 7 ''alice'' 0]\<rparr>"]
  by (simp add: request_of_def)

subsection \<open>Required fields\<close>

text \<open>
  C9. The amount is compared with \<^verbatim>\<open>undefined\<close> only, the texts are tested for
  truthiness. So a request to create a transaction whose amount is 0 and whose other
  fields are truthy is never answered with \<open>Missing required fields\<close>, and its amount
  passes the number check as well; one whose description or category is the empty string
  is answered with 400 \<open>Missing required fields\<close> and the list of the four fields, and
  nothing is sent to the database. For budget categories, on create and on update, an
  amount of 0 with a truthy name is never answered with \<open>Missing required fields\<close>, and
  an empty name is answered with 400 \<open>Missing required fields\<close> and the list of the two
  fields.
\<close>

theorem zero_amount_is_present_and_empty_text_is_missing:
  "(truthy (field (body req) ''description'') \<and> truthy (field (body req) ''category'')
      \<and> truthy (field (body req) ''date'') \<and> field (body req) ''amount'' = Num (Fin 0) \<longrightarrow>
      validate_transaction env req \<noteq> Inl missing_transaction_fields
    \<and> validate_transaction env req \<noteq> Inl invalid_amount
    \<and> fst (post_transactions env req userId st) \<noteq> missing_transaction_fields)
   \<and> (faults env Connect = None
      \<and> (field (body req) ''description'' = Str [] \<or> field (body req) ''category'' = Str []) \<longrightarrow>
      post_transactions env req userId st =
        (Responded 400 (Json (Obj [(''error'', Str ''Missing required fields''),
           (''required'', Arr [Str ''description'', Str ''amount'', Str ''category'', Str ''date''])])),
         st))
   \<and> (truthy (field (body req) ''name'') \<and> field (body req) ''amount'' = Num (Fin 0) \<longrightarrow>
      fst (post_budget_categories env req userId st) \<noteq> missing_category_fields
    \<and> fst (put_budget_categories env req userId st) \<noteq> missing_category_fields)
   \<and> (field (body req) ''name'' = Str [] \<longrightarrow>
      post_budget_categories env req userId st =
        (Responded 400 (Json (Obj [(''error'', Str ''Missing required fields''),
                                   (''required'', Arr [Str ''name'', Str ''amount''])])), st)
    \<and> put_budget_categories env req userId st =
        (Responded 400 (Json (Obj [(''error'', Str ''Missing required fields''),
                                   (''required'', Arr [Str ''name'', Str ''amount''])])), st))"
proof (intro conjI impI)
  assume h: "truthy (field (body req) ''description'') \<and> truthy (field (body req) ''category'')
      \<and> truthy (field (body req) ''date'') \<and> field (body req) ''amount'' = Num (Fin 0)"
  then show v1: "validate_transaction env req \<noteq> Inl missing_transaction_fields"
    and v2: "validate_transaction env req \<noteq> Inl invalid_amount"
    by (auto simp: validate_transaction_def not_a_number_def Let_def invalid_amount_def
        invalid_date_def missing_transaction_fields_def split: option.splits)
  from post_transactions_outcomes [of env req userId st] v1
  show "fst (post_transactions env req userId st) \<noteq> missing_transaction_fields"
    by (auto simp: outcome_distinct validation_outcomes_distinct)
next
  assume "faults env Connect = None
      \<and> (field (body req) ''description'' = Str [] \<or> field (body req) ''category'' = Str [])"
  then have "faults env Connect = None"
    and "validate_transaction env req = Inl missing_transaction_fields"
    by (auto simp: validate_transaction_def)
  from post_transactions_rejected_early [OF this]
  show "post_transactions env req userId st =
        (Responded 400 (Json (Obj [(''error'', Str ''Missing required fields''),
           (''required'', Arr [Str ''description'', Str ''amount'', Str ''category'', Str ''date''])])),
         st)"
    by (simp add: missing_transaction_fields_def)
next
  assume h: "truthy (field (body req) ''name'') \<and> field (body req) ''amount'' = Num (Fin 0)"
  then show "fst (post_budget_categories env req userId st) \<noteq> missing_category_fields"
    by (auto simp: post_budget_categories_def insert_category_def io_defs Let_def outcome_distinct
        category_outcomes_distinct split: sum.splits option.splits prod.splits)
  from h show "fst (put_budget_categories env req userId st) \<noteq> missing_category_fields"
    by (auto simp: put_budget_categories_def update_category_def io_defs Let_def outcome_distinct
        category_outcomes_distinct
        split: sum.splits option.splits prod.splits list.splits if_splits)
next
  assume "field (body req) ''name'' = Str []"
  then show "post_budget_categories env req userId st =
        (Responded 400 (Json (Obj [(''error'', Str ''Missing required fields''),
                                   (''required'', Arr [Str ''name'', Str ''amount''])])), st)"
    "put_budget_categories env req userId st =
        (Responded 400 (Json (Obj [(''error'', Str ''Missing required fields''),
                                   (''required'', Arr [Str ''name'', Str ''amount''])])), st)"
    by (simp_all add: post_budget_categories_def put_budget_categories_def
        missing_category_fields_def)
qed

theorem zero_amount_is_present_and_empty_text_is_missing_witness:
  "field coffee_free ''amount'' = Num (Fin 0)
   \<and> fst (post_transactions deployment (request_of (Some ''alice'') [] coffee_free) ''alice''
            empty_store) \<noteq> missing_transaction_fields
   \<and> field coffee_unnamed ''description'' = Str []
   \<and> post_transactions deployment (request_of (Some ''alice'') [] coffee_unnamed) ''alice''
        empty_store =
        (Responded 400 (Json (Obj [(''error'', Str ''Missing required fields''),
           (''required'', Arr [Str ''description'', Str ''amount'', Str ''category'', Str ''date''])])),
         empty_store)
   \<and> fst (post_budget_categories deployment (request_of (Some ''alice'') [] rent_free) ''alice''
            empty_store) \<noteq> missing_category_fields
   \<and> fst (put_budget_categories deployment (request_of (Some ''alice'') ''1'' rent_free) ''alice''
            empty_store) \<noteq> missing_category_fields
   \<and> post_budget_categories deployment (request_of (Some ''alice'') [] rent_unnamed) ''alice''
        empty_store =
        (Responded 400 (Json (Obj [(''error'', Str ''Missing required fields''),
                                   (''required'', Arr [Str ''name'', Str ''amount''])])), empty_store)
   \<and> put_budget_categories deployment (request_of (Some ''alice'') ''1'' rent_unnamed) ''alice''
        empty_store =
        (Responded 400 (Json (Obj [(''error'', Str ''Missing required fields''),
                                   (''required'', Arr [Str ''name'', Str ''amount''])])), empty_store)"
proof -
  have a: "truthy (field coffee_free ''description'')" "truthy (field coffee_free ''category'')"
    "truthy (field coffee_free ''date'')" "field coffee_free ''amount'' = Num (Fin 0)"
    by (simp_all add: coffee_free_def field_def)
  have b: "field coffee_unnamed ''description'' = Str []"
    by (simp add: coffee_unnamed_def field_def)
  have c: "truthy (field rent_free ''name'')" "field rent_free ''amount'' = Num (Fin 0)"
    by (simp_all add: rent_free_def field_def)
  have d: "field rent_unnamed ''name'' = Str []"
    by (simp add: rent_unnamed_def field_def)
  note t = zero_amount_is_present_and_empty_text_is_missing [where env = deployment
      and userId = "''alice''" and st = empty_store]
  show ?thesis
    using t [where req = "request_of (Some ''alice'') [] coffee_free"]
      t [where req = "request_of (Some ''alice'') [] coffee_unnamed"]
      t [where req = "request_of (Some ''alice'') [] rent_free"]
      t [where req = "request_of (Some ''alice'') ''1'' rent_free"]
      t [where req = "request_of (Some ''alice'') [] rent_unnamed"]
      t [where req = "request_of (Some ''alice'') ''1'' rent_unnamed"]
      a b c d deployment_runs(1)
    by simp
qed

subsection \<open>The id of a delete\<close>




end
